theory Spec2Isabelle
  imports Main "HOL-Library.Word"
begin

section \<open>Errors\<close>

text \<open>
  Go errors are values.  \<open>fmt.Errorf("ctx: %w", err)\<close> wraps an error with a context
  string; \<open>Wrapped\<close> keeps both parts.
\<close>

datatype error = Err string | Wrapped string error

section \<open>Journey planner (internal/adapters/postgres/journey_repo.go)\<close>

subsection \<open>Wall-clock times\<close>

text \<open>
  A \<open>time.Time\<close> in a fixed location is kept as its civil day number together with the
  second of that day; sub-second parts and daylight-saving shifts are outside the model.
  \<open>Hour\<close>, \<open>Minute\<close> and \<open>Second\<close> are the accessors of the Go type, \<open>Date_midnight\<close> is
  \<open>time.Date(t.Year(), t.Month(), t.Day(), 0, 0, 0, 0, t.Location())\<close> and \<open>Add\<close> adds a
  duration in seconds, carrying into the day number.
\<close>

record Time =
  civilDay :: int
  secOfDay :: int

definition Hour :: "Time \<Rightarrow> int" where
  "Hour t = secOfDay t div 3600"

definition Minute :: "Time \<Rightarrow> int" where
  "Minute t = secOfDay t mod 3600 div 60"

definition Second :: "Time \<Rightarrow> int" where
  "Second t = secOfDay t mod 60"

definition Date_midnight :: "Time \<Rightarrow> Time" where
  "Date_midnight t = \<lparr>civilDay = civilDay t, secOfDay = 0\<rparr>"

definition Add :: "Time \<Rightarrow> int \<Rightarrow> Time" where
  "Add t d = \<lparr>civilDay = civilDay t + (secOfDay t + d) div 86400,
              secOfDay = (secOfDay t + d) mod 86400\<rparr>"

text \<open>\<open>Sub t u\<close> is \<open>t.Sub(u)\<close>: the seconds elapsed from \<open>u\<close> to \<open>t\<close>.\<close>

definition Sub :: "Time \<Rightarrow> Time \<Rightarrow> int" where
  "Sub t u = (civilDay t - civilDay u) * 86400 + (secOfDay t - secOfDay u)"

subsection \<open>Tables (migrations/002_core_tables.sql)\<close>

text \<open>
  Only the columns the planner reads are kept.  A column without \<open>NOT NULL\<close> is an
  \<open>option\<close>; intervals are whole seconds.  Stop coordinates are copied through by the
  planner unchanged and are left out.
\<close>

record stop_time_row =
  st_trip_id :: "string option"
  st_stop_id :: "string option"
  st_arrival_time :: int
  st_departure_time :: int
  st_stop_sequence :: int

record trip_row =
  t_id :: string
  t_trip_id :: string
  t_route_id :: "string option"
  t_headsign :: "string option"
  t_direction_id :: "int option"

record route_row =
  r_id :: string
  r_route_id :: string
  r_short_name :: "string option"
  r_long_name :: string
  r_route_type :: int
  r_color :: "string option"
  r_text_color :: "string option"

record stop_row =
  s_id :: string
  s_stop_id :: string
  s_name :: string

record DB =
  stop_times :: "stop_time_row list"
  trips :: "trip_row list"
  routes :: "route_row list"
  stops :: "stop_row list"

subsection \<open>Domain values (package domain)\<close>

record Route =
  Route_ID :: string
  Route_RouteID :: string
  Route_ShortName :: string
  Route_LongName :: string
  Route_RouteType :: int
  Route_Color :: string
  Route_TextColor :: string

record Trip =
  Trip_ID :: string
  Trip_TripID :: string
  Trip_RouteID :: string
  Trip_Headsign :: string
  Trip_DirectionID :: int

record Stop =
  Stop_ID :: string
  Stop_StopID :: string
  Stop_Name :: string

record Departure =
  Dep_Trip :: Trip
  ScheduledTime :: Time

record JourneyLeg =
  Leg_Route :: Route
  FromStop :: Stop
  ToStop :: Stop
  Leg_Departure :: Departure
  Leg_ArrivalTime :: Time

record Journey =
  Legs :: "JourneyLeg list"
  Duration :: int
  DepartureTime :: Time
  ArrivalTime :: Time
  Transfers :: int

subsection \<open>SQL helpers\<close>

text \<open>
  \<open>COALESCE(x, d)\<close>, and SQL equality of a nullable column with a value: a \<open>NULL\<close> never
  compares equal.
\<close>

definition COALESCE :: "'a option \<Rightarrow> 'a \<Rightarrow> 'a" where
  "COALESCE x d = (case x of None \<Rightarrow> d | Some v \<Rightarrow> v)"

definition sql_eq :: "'a option \<Rightarrow> 'a option \<Rightarrow> bool" where
  "sql_eq x y = (case x of None \<Rightarrow> False | Some v \<Rightarrow> y = Some v)"

text \<open>
  \<open>ORDER BY key\<close> sorts by the key alone; rows with equal keys stay in the order in which
  the join enumerates them (tables are scanned in list order).  \<open>LIMIT n\<close> keeps the first
  \<open>n\<close> rows.
\<close>

definition ORDER_BY :: "('a \<Rightarrow> int) \<Rightarrow> 'a list \<Rightarrow> 'a list" where
  "ORDER_BY key rows = sort_key key rows"

definition LIMIT :: "int \<Rightarrow> 'a list \<Rightarrow> 'a list" where
  "LIMIT n rows = take (nat n) rows"

text \<open>Scanning a column into a Go \<open>string\<close> fails on \<open>NULL\<close>.\<close>

definition scan_string :: "string option \<Rightarrow> error + string" where
  "scan_string x = (case x of None \<Rightarrow> Inl (Err ''cannot scan NULL into *string'') | Some v \<Rightarrow> Inr v)"

subsection \<open>The limit guard\<close>

text \<open>
  The first statement of \<open>FindJourneys\<close>:
  \<^verbatim>\<open>if limit <= 0 || limit > 20 { limit = 5 }\<close>
\<close>

definition FindJourneys_limit :: "int \<Rightarrow> int" where
  "FindJourneys_limit limit = (if limit \<le> 0 \<or> limit > 20 then 5 else limit)"

subsection \<open>Phase 1: the direct query\<close>

record direct_row =
  d_from :: stop_time_row
  d_to :: stop_time_row
  d_trip :: trip_row
  d_route :: route_row
  d_fs :: stop_row
  d_ts :: stop_row

text \<open>\<open>FROM stop_times st_from JOIN ... WHERE ...\<close> of the first query, before ordering.\<close>

definition direct_join :: "DB \<Rightarrow> string \<Rightarrow> string \<Rightarrow> int \<Rightarrow> direct_row list" where
  "direct_join db fromStopID toStopID todSeconds =
     [\<lparr>d_from = sf, d_to = st, d_trip = t, d_route = r, d_fs = fs, d_ts = ts\<rparr>.
        sf \<leftarrow> stop_times db,
        st \<leftarrow> stop_times db, sql_eq (st_trip_id sf) (st_trip_id st),
        t \<leftarrow> trips db, sql_eq (Some (t_id t)) (st_trip_id sf),
        r \<leftarrow> routes db, sql_eq (Some (r_id r)) (t_route_id t),
        fs \<leftarrow> stops db, sql_eq (Some (s_id fs)) (st_stop_id sf),
        ts \<leftarrow> stops db, sql_eq (Some (s_id ts)) (st_stop_id st),
        sql_eq (st_stop_id sf) (Some fromStopID),
        sql_eq (st_stop_id st) (Some toStopID),
        st_stop_sequence sf < st_stop_sequence st,
        st_departure_time sf \<ge> todSeconds]"

definition direct_query :: "DB \<Rightarrow> string \<Rightarrow> string \<Rightarrow> int \<Rightarrow> int \<Rightarrow> direct_row list" where
  "direct_query db fromStopID toStopID todSeconds limit =
     LIMIT limit (ORDER_BY (\<lambda>row. st_departure_time (d_from row))
       (direct_join db fromStopID toStopID todSeconds))"

definition scan_route :: "route_row \<Rightarrow> error + Route" where
  "scan_route r =
     (case scan_string (r_color r) of Inl e \<Rightarrow> Inl e | Inr color \<Rightarrow>
      case scan_string (r_text_color r) of Inl e \<Rightarrow> Inl e | Inr textColor \<Rightarrow>
        Inr \<lparr>Route_ID = r_id r, Route_RouteID = r_route_id r,
             Route_ShortName = COALESCE (r_short_name r) [],
             Route_LongName = r_long_name r, Route_RouteType = r_route_type r,
             Route_Color = color, Route_TextColor = textColor\<rparr>)"

definition scan_stop :: "stop_row \<Rightarrow> Stop" where
  "scan_stop s = \<lparr>Stop_ID = s_id s, Stop_StopID = s_stop_id s, Stop_Name = s_name s\<rparr>"

text \<open>The body of the loop over \<open>directRows\<close>: scan one row and build the journey.\<close>

definition direct_journey :: "Time \<Rightarrow> direct_row \<Rightarrow> error + Journey" where
  "direct_journey today row =
     (case scan_route (d_route row) of Inl e \<Rightarrow> Inl e | Inr route \<Rightarrow>
        let depInterval = st_departure_time (d_from row);
            arrInterval = st_arrival_time (d_to row);
            trip = \<lparr>Trip_ID = t_id (d_trip row), Trip_TripID = t_trip_id (d_trip row),
                    Trip_RouteID = Route_ID route,
                    Trip_Headsign = COALESCE (t_headsign (d_trip row)) [],
                    Trip_DirectionID = COALESCE (t_direction_id (d_trip row)) 0\<rparr>;
            depTime = Add today depInterval;
            arrTime = Add today arrInterval;
            duration = arrInterval - depInterval
        in Inr \<lparr>Legs = [\<lparr>Leg_Route = route, FromStop = scan_stop (d_fs row),
                          ToStop = scan_stop (d_ts row),
                          Leg_Departure = \<lparr>Dep_Trip = trip, ScheduledTime = depTime\<rparr>,
                          Leg_ArrivalTime = arrTime\<rparr>],
                Duration = duration, DepartureTime = depTime, ArrivalTime = arrTime,
                Transfers = 0\<rparr>)"

text \<open>The loop: a scan error returns it at once (\<open>return nil, err\<close>).\<close>

fun direct_loop :: "Time \<Rightarrow> direct_row list \<Rightarrow> Journey list \<Rightarrow> error + Journey list" where
  "direct_loop today [] journeys = Inr journeys"
| "direct_loop today (row # rows) journeys =
     (case direct_journey today row of
        Inl e \<Rightarrow> Inl e
      | Inr j \<Rightarrow> direct_loop today rows (journeys @ [j]))"

subsection \<open>Phase 2: the one-transfer query\<close>

text \<open>
  The two common table expressions.  A \<open>leg_row\<close> pairs the stop-time where the leg is
  boarded with the stop-time where it is left, both of one trip.
\<close>

record leg_row =
  leg_from :: stop_time_row
  leg_to :: stop_time_row

definition leg1 :: "DB \<Rightarrow> string \<Rightarrow> int \<Rightarrow> leg_row list" where
  "leg1 db fromStopID todSeconds =
     [\<lparr>leg_from = st1_from, leg_to = st1_to\<rparr>.
        st1_from \<leftarrow> stop_times db,
        st1_to \<leftarrow> stop_times db,
        sql_eq (st_trip_id st1_from) (st_trip_id st1_to)
          \<and> st_stop_sequence st1_from < st_stop_sequence st1_to,
        sql_eq (st_stop_id st1_from) (Some fromStopID),
        st_departure_time st1_from \<ge> todSeconds]"

definition leg2 :: "DB \<Rightarrow> string \<Rightarrow> leg_row list" where
  "leg2 db toStopID =
     [\<lparr>leg_from = st2_from, leg_to = st2_to\<rparr>.
        st2_from \<leftarrow> stop_times db,
        st2_to \<leftarrow> stop_times db,
        sql_eq (st_trip_id st2_from) (st_trip_id st2_to)
          \<and> st_stop_sequence st2_from < st_stop_sequence st2_to,
        sql_eq (st_stop_id st2_to) (Some toStopID)]"

text \<open>The columns \<open>dep1\<close>, \<open>arr1\<close>, \<open>dep2\<close>, \<open>arr2\<close> of the expressions.\<close>

definition leg_dep :: "leg_row \<Rightarrow> int" where
  "leg_dep l = st_departure_time (leg_from l)"

definition leg_arr :: "leg_row \<Rightarrow> int" where
  "leg_arr l = st_arrival_time (leg_to l)"

record transfer_row =
  x_l1 :: leg_row
  x_l2 :: leg_row
  x_t1 :: trip_row
  x_r1 :: route_row
  x_t2 :: trip_row
  x_r2 :: route_row
  x_fs :: stop_row
  x_xs :: stop_row
  x_ds :: stop_row

definition transfer_join :: "DB \<Rightarrow> string \<Rightarrow> string \<Rightarrow> int \<Rightarrow> transfer_row list" where
  "transfer_join db fromStopID toStopID todSeconds =
     [\<lparr>x_l1 = l1, x_l2 = l2, x_t1 = t1, x_r1 = r1, x_t2 = t2, x_r2 = r2,
       x_fs = fs, x_xs = xs, x_ds = ds\<rparr>.
        l1 \<leftarrow> leg1 db fromStopID todSeconds,
        l2 \<leftarrow> leg2 db toStopID,
        sql_eq (st_stop_id (leg_to l1)) (st_stop_id (leg_from l2))
          \<and> leg_dep l2 \<ge> leg_arr l1 + 2 * 60
          \<and> leg_dep l2 \<le> leg_arr l1 + 30 * 60,
        t1 \<leftarrow> trips db, sql_eq (Some (t_id t1)) (st_trip_id (leg_from l1)),
        r1 \<leftarrow> routes db, sql_eq (Some (r_id r1)) (t_route_id t1),
        t2 \<leftarrow> trips db, sql_eq (Some (t_id t2)) (st_trip_id (leg_from l2)),
        r2 \<leftarrow> routes db, sql_eq (Some (r_id r2)) (t_route_id t2),
        fs \<leftarrow> stops db, sql_eq (Some (s_id fs)) (st_stop_id (leg_from l1)),
        xs \<leftarrow> stops db, sql_eq (Some (s_id xs)) (st_stop_id (leg_to l1)),
        ds \<leftarrow> stops db, sql_eq (Some (s_id ds)) (st_stop_id (leg_to l2)),
        r_id r1 \<noteq> r_id r2]"

text \<open>The sort key \<open>l2.arr2 - l1.dep1\<close>.\<close>

definition elapsed :: "transfer_row \<Rightarrow> int" where
  "elapsed row = leg_arr (x_l2 row) - leg_dep (x_l1 row)"

definition transfer_query :: "DB \<Rightarrow> string \<Rightarrow> string \<Rightarrow> int \<Rightarrow> int \<Rightarrow> transfer_row list" where
  "transfer_query db fromStopID toStopID todSeconds remaining =
     LIMIT remaining (ORDER_BY elapsed (transfer_join db fromStopID toStopID todSeconds))"

text \<open>The body of the loop over \<open>transferRows\<close>.\<close>

definition transfer_journey :: "Time \<Rightarrow> transfer_row \<Rightarrow> error + Journey" where
  "transfer_journey today row =
     (case scan_route (x_r1 row) of Inl e \<Rightarrow> Inl e | Inr r1 \<Rightarrow>
      case scan_route (x_r2 row) of Inl e \<Rightarrow> Inl e | Inr r2 \<Rightarrow>
        let dep1 = leg_dep (x_l1 row); arr1 = leg_arr (x_l1 row);
            dep2 = leg_dep (x_l2 row); arr2 = leg_arr (x_l2 row);
            fromStop = scan_stop (x_fs row); xferStop = scan_stop (x_xs row);
            toStop = scan_stop (x_ds row);
            t1 = \<lparr>Trip_ID = t_id (x_t1 row), Trip_TripID = t_trip_id (x_t1 row),
                  Trip_RouteID = Route_ID r1,
                  Trip_Headsign = COALESCE (t_headsign (x_t1 row)) [],
                  Trip_DirectionID = 0\<rparr>;
            t2 = \<lparr>Trip_ID = t_id (x_t2 row), Trip_TripID = t_trip_id (x_t2 row),
                  Trip_RouteID = Route_ID r2,
                  Trip_Headsign = COALESCE (t_headsign (x_t2 row)) [],
                  Trip_DirectionID = 0\<rparr>;
            depTime = Add today dep1;
            arrTime = Add today arr2
        in Inr \<lparr>Legs = [\<lparr>Leg_Route = r1, FromStop = fromStop, ToStop = xferStop,
                          Leg_Departure = \<lparr>Dep_Trip = t1, ScheduledTime = depTime\<rparr>,
                          Leg_ArrivalTime = Add today arr1\<rparr>,
                        \<lparr>Leg_Route = r2, FromStop = xferStop, ToStop = toStop,
                          Leg_Departure = \<lparr>Dep_Trip = t2, ScheduledTime = Add today dep2\<rparr>,
                          Leg_ArrivalTime = arrTime\<rparr>],
                Duration = arr2 - dep1, DepartureTime = depTime, ArrivalTime = arrTime,
                Transfers = 1\<rparr>)"

text \<open>The loop: a scan error skips the row (\<open>continue\<close>).\<close>

fun transfer_loop :: "Time \<Rightarrow> transfer_row list \<Rightarrow> Journey list \<Rightarrow> Journey list" where
  "transfer_loop today [] journeys = journeys"
| "transfer_loop today (row # rows) journeys =
     (case transfer_journey today row of
        Inl e \<Rightarrow> transfer_loop today rows journeys
      | Inr j \<Rightarrow> transfer_loop today rows (journeys @ [j]))"

subsection \<open>FindJourneys\<close>

text \<open>
  Failures of the store itself are inputs: an error of the first \<open>Query\<close>, of
  \<open>directRows.Err()\<close> after the loop, and of the second \<open>Query\<close>.
\<close>

record db_faults =
  directQueryErr :: "error option"
  directRowsErr :: "error option"
  transferQueryErr :: "error option"

definition todSeconds_of :: "Time \<Rightarrow> int" where
  "todSeconds_of departAfter =
     Hour departAfter * 3600 + Minute departAfter * 60 + Second departAfter"

text \<open>Phase 1 alone: query, loop, and the check of \<open>directRows.Err()\<close>.\<close>

definition phase1 :: "DB \<Rightarrow> db_faults \<Rightarrow> string \<Rightarrow> string \<Rightarrow> Time \<Rightarrow> int \<Rightarrow> error + Journey list" where
  "phase1 db faults fromStopID toStopID departAfter limit =
     (let todSeconds = todSeconds_of departAfter;
          today = Date_midnight departAfter
      in case directQueryErr faults of Some e \<Rightarrow> Inl e | None \<Rightarrow>
         case direct_loop today (direct_query db fromStopID toStopID todSeconds limit) [] of
           Inl e \<Rightarrow> Inl e
         | Inr journeys \<Rightarrow>
             (case directRowsErr faults of Some e \<Rightarrow> Inl e | None \<Rightarrow> Inr journeys))"

text \<open>Phase 2 alone, entered with the journeys of phase 1.\<close>

definition phase2 :: "DB \<Rightarrow> db_faults \<Rightarrow> string \<Rightarrow> string \<Rightarrow> Time \<Rightarrow> int \<Rightarrow> int \<Rightarrow> Journey list \<Rightarrow> Journey list" where
  "phase2 db faults fromStopID toStopID departAfter maxTransfers limit journeys =
     (let todSeconds = todSeconds_of departAfter;
          today = Date_midnight departAfter
      in if maxTransfers \<ge> 1 \<and> int (length journeys) < limit then
           let remaining = limit - int (length journeys)
           in case transferQueryErr faults of
                Some e \<Rightarrow> journeys
              | None \<Rightarrow>
                  transfer_loop today
                    (transfer_query db fromStopID toStopID todSeconds remaining) journeys
         else journeys)"

definition FindJourneys :: "DB \<Rightarrow> db_faults \<Rightarrow> string \<Rightarrow> string \<Rightarrow> Time \<Rightarrow> int \<Rightarrow> int \<Rightarrow> error + Journey list" where
  "FindJourneys db faults fromStopID toStopID departAfter maxTransfers limit0 =
     (let limit = FindJourneys_limit limit0
      in case phase1 db faults fromStopID toStopID departAfter limit of
           Inl e \<Rightarrow> Inl e
         | Inr journeys \<Rightarrow>
             Inr (phase2 db faults fromStopID toStopID departAfter maxTransfers limit journeys))"

subsection \<open>PlanJourney (internal/core/usecases, JourneyService)\<close>


subsection \<open>Auxiliary notions for the planner's properties\<close>

text \<open>What one fetched transfer row contributes to the result: nothing when its scan fails.\<close>

definition scanned :: "Time \<Rightarrow> transfer_row \<Rightarrow> Journey option" where
  "scanned today row = (case transfer_journey today row of Inl e \<Rightarrow> None | Inr j \<Rightarrow> Some j)"


text \<open>The transfer journeys of a call, given the number \<open>n\<close> of direct journeys found.\<close>

definition xfer_part :: "DB \<Rightarrow> db_faults \<Rightarrow> string \<Rightarrow> string \<Rightarrow> Time \<Rightarrow> int \<Rightarrow> int \<Rightarrow> nat \<Rightarrow> Journey list" where
  "xfer_part db faults f t dep mt limit n =
     (if mt \<ge> 1 \<and> int n < limit \<and> transferQueryErr faults = None
      then List.map_filter (scanned (Date_midnight dep))
             (transfer_query db f t (secOfDay dep) (limit - int n))
      else [])"



subsection \<open>Example timetables\<close>

definition no_faults :: db_faults where
  "no_faults = \<lparr>directQueryErr = None, directRowsErr = None, transferQueryErr = None\<rparr>"

definition mk_stop_time :: "string \<Rightarrow> string \<Rightarrow> int \<Rightarrow> int \<Rightarrow> int \<Rightarrow> stop_time_row" where
  "mk_stop_time trip stop arr dep seq =
     \<lparr>st_trip_id = Some trip, st_stop_id = Some stop, st_arrival_time = arr,
      st_departure_time = dep, st_stop_sequence = seq\<rparr>"

definition mk_trip :: "string \<Rightarrow> string \<Rightarrow> trip_row" where
  "mk_trip tid rid =
     \<lparr>t_id = tid, t_trip_id = tid, t_route_id = Some rid, t_headsign = None,
      t_direction_id = None\<rparr>"

definition mk_route :: "string \<Rightarrow> route_row" where
  "mk_route rid =
     \<lparr>r_id = rid, r_route_id = rid, r_short_name = None, r_long_name = rid,
      r_route_type = 3, r_color = Some ''000000'', r_text_color = Some ''FFFFFF''\<rparr>"

definition mk_stop :: "string \<Rightarrow> stop_row" where
  "mk_stop sid = \<lparr>s_id = sid, s_stop_id = sid, s_name = sid\<rparr>"


text \<open>
  Trip \<open>TA\<close> on route \<open>Ra\<close> runs \<open>S1\<close> 08:00 to \<open>X\<close> 08:10; trip \<open>TB\<close> on route \<open>Rb\<close> runs
  \<open>X\<close> 08:15 to \<open>S2\<close> 08:25.
\<close>

definition transfer_db :: DB where
  "transfer_db =
     \<lparr>stop_times =
        [mk_stop_time ''TA'' ''S1'' 28800 28800 1, mk_stop_time ''TA'' ''X'' 29400 29400 2,
         mk_stop_time ''TB'' ''X'' 29700 29700 1, mk_stop_time ''TB'' ''S2'' 30300 30300 2],
      trips = [mk_trip ''TA'' ''Ra'', mk_trip ''TB'' ''Rb''],
      routes = [mk_route ''Ra'', mk_route ''Rb''],
      stops = [mk_stop ''S1'', mk_stop ''X'', mk_stop ''S2'']\<rparr>"




section \<open>Real-time poller: delay detection (cmd/realtime/main.go)\<close>

subsection \<open>GTFS-Realtime messages\<close>

text \<open>
  The generated protobuf types, reduced to the fields \<open>pollTripUpdates\<close> reads.  An
  optional field is a pointer in Go: \<open>None\<close> is \<open>nil\<close>.  Delays are \<open>int32\<close>.  The
  getters return the zero value on \<open>nil\<close>.
\<close>

record StopTimeEvent =
  ste_Delay :: "32 word option"

record StopTimeUpdate =
  stu_Arrival :: "StopTimeEvent option"
  stu_Departure :: "StopTimeEvent option"
  stu_StopId :: "string option"

record TripDescriptor =
  td_TripId :: "string option"
  td_RouteId :: "string option"

record TripUpdate =
  tu_Trip :: "TripDescriptor option"
  tu_Delay :: "32 word option"
  tu_StopTimeUpdate :: "StopTimeUpdate list"

record FeedEntity =
  fe_TripUpdate :: "TripUpdate option"

definition GetString :: "string option \<Rightarrow> string" where
  "GetString x = (case x of None \<Rightarrow> [] | Some s \<Rightarrow> s)"

definition GetDelay :: "32 word option \<Rightarrow> 32 word" where
  "GetDelay x = (case x of None \<Rightarrow> 0 | Some d \<Rightarrow> d)"

definition GetTripId :: "TripDescriptor option \<Rightarrow> string" where
  "GetTripId trip = (case trip of None \<Rightarrow> [] | Some t \<Rightarrow> GetString (td_TripId t))"

definition GetRouteId :: "TripDescriptor option \<Rightarrow> string" where
  "GetRouteId trip = (case trip of None \<Rightarrow> [] | Some t \<Rightarrow> GetString (td_RouteId t))"

subsection \<open>Published messages\<close>

text \<open>
  The JSON object handed to \<open>nc.Publish\<close>, by its keys, together with the subject it is
  published on.  The result of \<open>Publish\<close> is discarded by the code.
\<close>

record delay_message =
  dm_agency :: string
  dm_trip_id :: string
  dm_stop_id :: string
  dm_delay_sec :: int
  dm_route_id :: string

type_synonym publish = "string \<times> delay_message"

subsection \<open>pollTripUpdates\<close>

text \<open>
  \<open>has_Delay ev\<close> is the test \<open>ev != nil && ev.Delay != nil\<close>, and \<open>ev_GetDelay ev\<close> the
  call \<open>ev.GetDelay()\<close>, which is safe on \<open>nil\<close>.
\<close>

definition has_Delay :: "StopTimeEvent option \<Rightarrow> bool" where
  "has_Delay ev = (case ev of None \<Rightarrow> False | Some e \<Rightarrow> ste_Delay e \<noteq> None)"

definition ev_GetDelay :: "StopTimeEvent option \<Rightarrow> 32 word" where
  "ev_GetDelay ev = (case ev of None \<Rightarrow> 0 | Some e \<Rightarrow> GetDelay (ste_Delay e))"

text \<open>The \<open>if / else if / else\<close> that sets \<open>stopDelay\<close>; \<open>int(x)\<close> of an \<open>int32\<close> is \<open>sint\<close>.\<close>

definition stopDelay_of :: "int \<Rightarrow> StopTimeUpdate \<Rightarrow> int" where
  "stopDelay_of overallDelay stu =
     (if has_Delay (stu_Arrival stu) then sint (ev_GetDelay (stu_Arrival stu))
      else if has_Delay (stu_Departure stu) then sint (ev_GetDelay (stu_Departure stu))
      else overallDelay)"

text \<open>
  The inner loop over \<open>tu.GetStopTimeUpdate()\<close>.  The state is the counter \<open>delays\<close> and
  the messages published so far, oldest first.
\<close>

fun stop_time_loop :: "string \<Rightarrow> TripDescriptor option \<Rightarrow> int \<Rightarrow> StopTimeUpdate list
    \<Rightarrow> nat \<times> publish list \<Rightarrow> nat \<times> publish list" where
  "stop_time_loop slug trip overallDelay [] st = st"
| "stop_time_loop slug trip overallDelay (stu # stus) (delays, published) =
     (let stopDelay = stopDelay_of overallDelay stu
      in if stopDelay > 180 then
           stop_time_loop slug trip overallDelay stus
             (delays + 1,
              published @ [(''transit.delays.detected'',
                 \<lparr>dm_agency = slug, dm_trip_id = GetTripId trip,
                  dm_stop_id = GetString (stu_StopId stu), dm_delay_sec = stopDelay,
                  dm_route_id = GetRouteId trip\<rparr>)])
         else stop_time_loop slug trip overallDelay stus (delays, published))"

text \<open>The outer loop over \<open>feed.GetEntity()\<close>.\<close>

fun entity_loop :: "string \<Rightarrow> FeedEntity list \<Rightarrow> nat \<times> publish list \<Rightarrow> nat \<times> publish list" where
  "entity_loop slug [] st = st"
| "entity_loop slug (entity # entities) st =
     (case fe_TripUpdate entity of
        None \<Rightarrow> entity_loop slug entities st
      | Some tu \<Rightarrow>
          (let trip = tu_Trip tu;
               overallDelay = sint (GetDelay (tu_Delay tu))
           in entity_loop slug entities
                (stop_time_loop slug trip overallDelay (tu_StopTimeUpdate tu) st)))"

text \<open>
  \<open>pollTripUpdates\<close>: the outcome of \<open>fetchFeed\<close> is an input.  The result is the returned
  error, if any, and the messages published.
\<close>

definition pollTripUpdates :: "string \<Rightarrow> error + FeedEntity list \<Rightarrow> error option \<times> publish list" where
  "pollTripUpdates slug fetched =
     (case fetched of
        Inl err \<Rightarrow> (Some err, [])
      | Inr feed \<Rightarrow> (None, snd (entity_loop slug feed (0, []))))"

text \<open>The message the loop publishes for one stop-time update.\<close>

definition delay_msg :: "string \<Rightarrow> TripDescriptor option \<Rightarrow> int \<Rightarrow> StopTimeUpdate \<Rightarrow> publish" where
  "delay_msg slug trip overallDelay stu =
     (''transit.delays.detected'',
      \<lparr>dm_agency = slug, dm_trip_id = GetTripId trip,
       dm_stop_id = GetString (stu_StopId stu), dm_delay_sec = stopDelay_of overallDelay stu,
       dm_route_id = GetRouteId trip\<rparr>)"

subsection \<open>The specification's reading of delay detection\<close>

text \<open>
  Per-stop delay in the specification's words: the arrival delay if present, else the
  departure delay if present, else the trip-level delay.
\<close>

definition present_delay :: "StopTimeEvent option \<Rightarrow> int option" where
  "present_delay ev = (case ev of None \<Rightarrow> None | Some e \<Rightarrow> map_option sint (ste_Delay e))"

definition spec_stop_delay :: "TripUpdate \<Rightarrow> StopTimeUpdate \<Rightarrow> int" where
  "spec_stop_delay tu stu =
     (case present_delay (stu_Arrival stu) of
        Some d \<Rightarrow> d
      | None \<Rightarrow>
          (case present_delay (stu_Departure stu) of
             Some d \<Rightarrow> d
           | None \<Rightarrow> sint (GetDelay (tu_Delay tu))))"

definition spec_messages :: "string \<Rightarrow> FeedEntity list \<Rightarrow> publish list" where
  "spec_messages slug feed =
     [(''transit.delays.detected'',
       \<lparr>dm_agency = slug, dm_trip_id = GetTripId (tu_Trip tu),
        dm_stop_id = GetString (stu_StopId stu), dm_delay_sec = spec_stop_delay tu stu,
        dm_route_id = GetRouteId (tu_Trip tu)\<rparr>).
        entity \<leftarrow> feed, tu \<leftarrow> (case fe_TripUpdate entity of None \<Rightarrow> [] | Some tu \<Rightarrow> [tu]),
        stu \<leftarrow> tu_StopTimeUpdate tu, spec_stop_delay tu stu > 180]"

text \<open>
  An example feed: one entity without a trip update; trip \<open>T1\<close> on route \<open>R1\<close> with no
  trip-level delay and four stops: arrival delay 240 at \<open>S2\<close>, arrival delay 180 at
  \<open>S3\<close>, only a departure delay 200 at \<open>S4\<close>, no delay at all at \<open>S5\<close>; trip \<open>T2\<close> with
  trip-level delay 300 and one stop \<open>S6\<close> without delays of its own.
\<close>

definition example_feed :: "FeedEntity list" where
  "example_feed =
     [\<lparr>fe_TripUpdate = None\<rparr>,
      \<lparr>fe_TripUpdate = Some
        \<lparr>tu_Trip = Some \<lparr>td_TripId = Some ''T1'', td_RouteId = Some ''R1''\<rparr>,
         tu_Delay = None,
         tu_StopTimeUpdate =
           [\<lparr>stu_Arrival = Some \<lparr>ste_Delay = Some 240\<rparr>, stu_Departure = None,
             stu_StopId = Some ''S2''\<rparr>,
            \<lparr>stu_Arrival = Some \<lparr>ste_Delay = Some 180\<rparr>, stu_Departure = None,
             stu_StopId = Some ''S3''\<rparr>,
            \<lparr>stu_Arrival = Some \<lparr>ste_Delay = None\<rparr>,
             stu_Departure = Some \<lparr>ste_Delay = Some 200\<rparr>, stu_StopId = Some ''S4''\<rparr>,
            \<lparr>stu_Arrival = None, stu_Departure = None, stu_StopId = Some ''S5''\<rparr>]\<rparr>\<rparr>,
      \<lparr>fe_TripUpdate = Some
        \<lparr>tu_Trip = Some \<lparr>td_TripId = Some ''T2'', td_RouteId = None\<rparr>,
         tu_Delay = Some 300,
         tu_StopTimeUpdate =
           [\<lparr>stu_Arrival = None, stu_Departure = None, stu_StopId = Some ''S6''\<rparr>]\<rparr>\<rparr>]"

section \<open>Message bus subjects (package natsadapter)\<close>

text \<open>
  The three streams that \<open>NewPublisher\<close> ensures, by name and subject patterns.
\<close>

record StreamConfig =
  sc_Name :: string
  sc_Subjects :: "string list"

definition NewPublisher_streams :: "StreamConfig list" where
  "NewPublisher_streams =
     [\<lparr>sc_Name = ''VEHICLE_POSITIONS'', sc_Subjects = [''transit.vehicle.>'']\<rparr>,
      \<lparr>sc_Name = ''TRANSIT_ALERTS'', sc_Subjects = [''transit.alerts.>'']\<rparr>,
      \<lparr>sc_Name = ''TRANSIT_DELAYS'', sc_Subjects = [''transit.delay.>'']\<rparr>]"

text \<open>
  Subject matching of the bus (the NATS server, not code of the repository): subjects
  are split into tokens at dots (\<open>split_char sep [] s\<close> splits \<open>s\<close> at every \<open>sep\<close>, like
  \<open>strings.Split\<close>); a pattern token \<open>*\<close> matches one token, a final \<open>>\<close>
  matches one or more remaining tokens, any other token matches itself.
\<close>

fun split_char :: "char \<Rightarrow> string \<Rightarrow> string \<Rightarrow> string list" where
  "split_char sep acc [] = [acc]"
| "split_char sep acc (c # cs) =
     (if c = sep then acc # split_char sep [] cs else split_char sep (acc @ [c]) cs)"

fun match_tokens :: "string list \<Rightarrow> string list \<Rightarrow> bool" where
  "match_tokens [] [] = True"
| "match_tokens [] (s # ss) = False"
| "match_tokens (p # ps) [] = False"
| "match_tokens (p # ps) (s # ss) =
     (if p = ''>'' \<and> ps = [] then True
      else if p = ''*'' \<or> p = s then match_tokens ps ss
      else False)"

definition subject_matches :: "string \<Rightarrow> string \<Rightarrow> bool" where
  "subject_matches pattern subject = match_tokens (split_char (CHR ''.'') [] pattern) (split_char (CHR ''.'') [] subject)"

text \<open>The names of the streams that capture a subject.\<close>

definition capturing_streams :: "string \<Rightarrow> string list" where
  "capturing_streams subject =
     [sc_Name cfg. cfg \<leftarrow> NewPublisher_streams, pattern \<leftarrow> sc_Subjects cfg,
        subject_matches pattern subject]"

section \<open>Delay compensation (internal/core/usecases/compensation_service.go)\<close>

subsection \<open>Domain values and the store\<close>

text \<open>Times are seconds; \<open>72 * time.Hour\<close> is \<open>72 * 3600\<close>.\<close>

record Affiliate =
  aff_ID :: string
  aff_Name :: string

record Compensation =
  comp_UserID :: string
  comp_DelayEventID :: string
  comp_AffiliateID :: string
  comp_Code :: string
  comp_IssuedAt :: int
  comp_ExpiresAt :: int

text \<open>
  Every call of an activity is logged in \<open>trace\<close>, oldest first, so that the order of
  the workflow's steps can be stated.
\<close>

datatype activity_call =
    CallFindNearestAffiliate
  | CallGetAffiliateName string
  | CallGenerateCouponCode string string string
  | CallSendPushNotification string string string
  | CallDeleteCoupon string

text \<open>
  The world outside the service: the rows of the \<open>compensations\<close> table, the delay events
  marked as compensated, and the push notifications delivered as (user, title, body).
\<close>

record World =
  compensations :: "Compensation list"
  compensated :: "string list"
  pushes :: "(string \<times> string \<times> string) list"
  trace :: "activity_call list"

text \<open>
  Modelled from the spec: the implementation of \<open>ports.CompensationRepository\<close> (no
  adapter for it is among the sources).  \<open>Create\<close> inserts the row; it fails, inserting
  nothing, when the store reports an error (an input here) or when the code is already
  taken (the specification's "code globally unique", \<open>code TEXT UNIQUE\<close> in the schema).
  There is no uniqueness on \<open>delay_event_id\<close>.  \<open>Delete\<close> removes the rows with the given
  code, or fails and removes nothing.
\<close>

definition Create :: "error option \<Rightarrow> Compensation \<Rightarrow> World \<Rightarrow> error + World" where
  "Create storeErr cp w =
     (case storeErr of
        Some e \<Rightarrow> Inl e
      | None \<Rightarrow>
          if comp_Code cp \<in> set (map comp_Code (compensations w))
          then Inl (Err ''duplicate key value violates unique constraint'')
          else Inr (w\<lparr>compensations := compensations w @ [cp]\<rparr>))"

definition Delete :: "error option \<Rightarrow> string \<Rightarrow> World \<Rightarrow> error + World" where
  "Delete storeErr code w =
     (case storeErr of
        Some e \<Rightarrow> Inl e
      | None \<Rightarrow> Inr (w\<lparr>compensations := filter (\<lambda>c. comp_Code c \<noteq> code) (compensations w)\<rparr>))"

text \<open>
  Modelled from the spec: \<open>DelayEventRepository.MarkCompensated\<close> and
  \<open>NotificationService.SendPush\<close>, each with its failure as an input.
\<close>

definition MarkCompensated :: "error option \<Rightarrow> string \<Rightarrow> World \<Rightarrow> error option \<times> World" where
  "MarkCompensated storeErr delayEventID w =
     (case storeErr of
        Some e \<Rightarrow> (Some e, w)
      | None \<Rightarrow> (None, w\<lparr>compensated := compensated w @ [delayEventID]\<rparr>))"

definition SendPush :: "error option \<Rightarrow> string \<Rightarrow> string \<Rightarrow> string \<Rightarrow> World \<Rightarrow> error option \<times> World" where
  "SendPush pushErr userID title body w =
     (case pushErr of
        Some e \<Rightarrow> (Some e, w)
      | None \<Rightarrow> (None, w\<lparr>pushes := pushes w @ [(userID, title, body)]\<rparr>))"

subsection \<open>generateCode\<close>

definition hexdigit :: "nat \<Rightarrow> char" where
  "hexdigit n = ''0123456789abcdef'' ! (n mod 16)"

definition hex_EncodeToString :: "8 word list \<Rightarrow> string" where
  "hex_EncodeToString bs = concat (map (\<lambda>b. [hexdigit (unat b div 16), hexdigit (unat b mod 16)]) bs)"

text \<open>
  The outcome of \<open>rand.Read(b)\<close> on the six-byte buffer is an input: an error, or the
  bytes read.
\<close>

definition generateCode :: "error + 8 word list \<Rightarrow> error + string" where
  "generateCode randRead =
     (case randRead of Inl err \<Rightarrow> Inl err | Inr b \<Rightarrow> Inr (''BP-'' @ hex_EncodeToString b))"

subsection \<open>IssueCompensation\<close>

text \<open>
  What the collaborators answer during one call: the nearest-affiliate lookup, the random
  source, the two readings of the clock, and whether the store and the notifier fail.
  The stop coordinates only feed the lookup and are left out; the collaborators are not
  \<open>nil\<close>.  The dash in the push title, a non-ASCII character in the source, is written
  as a hyphen.
\<close>

record issue_env =
  ie_FindNearby :: "error + Affiliate list"
  ie_randRead :: "error + 8 word list"
  ie_now1 :: int
  ie_now2 :: int
  ie_createErr :: "error option"
  ie_markErr :: "error option"
  ie_pushErr :: "error option"

definition IssueCompensation :: "issue_env \<Rightarrow> string \<Rightarrow> string \<Rightarrow> World \<Rightarrow> (error + Compensation) \<times> World" where
  "IssueCompensation env userID delayEventID w =
     (case ie_FindNearby env of
        Inl err \<Rightarrow> (Inl (Wrapped ''find affiliates'' err), w)
      | Inr affiliates \<Rightarrow>
          (case affiliates of
             [] \<Rightarrow> (Inl (Err ''no affiliates found near stop''), w)
           | affiliate # rest \<Rightarrow>
               (case generateCode (ie_randRead env) of
                  Inl err \<Rightarrow> (Inl (Wrapped ''generate code'' err), w)
                | Inr code \<Rightarrow>
                    let cp = \<lparr>comp_UserID = userID, comp_DelayEventID = delayEventID,
                                comp_AffiliateID = aff_ID affiliate, comp_Code = code,
                                comp_IssuedAt = ie_now1 env,
                                comp_ExpiresAt = ie_now2 env + 72 * 3600\<rparr>
                    in (case Create (ie_createErr env) cp w of
                          Inl err \<Rightarrow> (Inl (Wrapped ''create compensation'' err), w)
                        | Inr w1 \<Rightarrow>
                            let (markResult, w2) = MarkCompensated (ie_markErr env) delayEventID w1;
                                title = ''Free coffee - sorry for the delay!'';
                                body = ''Show code '' @ code @ '' at '' @ aff_Name affiliate
                                         @ ''. Valid for 72 hours.'';
                                (pushResult, w3) = SendPush (ie_pushErr env) userID title body w2
                            in (Inr cp, w3)))))"

section \<open>Compensation workflow (package workflows)\<close>

subsection \<open>Activities\<close>

text \<open>
  What the collaborators answer during one attempt of each activity.  \<open>ae_notifier\<close> is
  \<open>None\<close> when the activities' \<open>Notifier\<close> is \<open>nil\<close>, else the outcome of its \<open>SendPush\<close>.
\<close>

record activity_env =
  ae_FindNearby :: "error + Affiliate list"
  ae_GetByID :: "error + Affiliate"
  ae_issue :: issue_env
  ae_notifier :: "error option option"
  ae_deleteErr :: "error option"

definition log_call :: "activity_call \<Rightarrow> World \<Rightarrow> World" where
  "log_call c w = w\<lparr>trace := trace w @ [c]\<rparr>"

definition FindNearestAffiliate :: "activity_env \<Rightarrow> World \<Rightarrow> (error + string) \<times> World" where
  "FindNearestAffiliate env w0 =
     (let w = log_call CallFindNearestAffiliate w0
      in case ae_FindNearby env of
           Inl err \<Rightarrow> (Inl (Wrapped ''find nearby affiliates'' err), w)
         | Inr affiliates \<Rightarrow>
             (case affiliates of
                [] \<Rightarrow> (Inl (Err ''no affiliates found near %.4f, %.4f''), w)
              | a # rest \<Rightarrow> (Inr (aff_ID a), w)))"

definition GetAffiliateName :: "activity_env \<Rightarrow> string \<Rightarrow> World \<Rightarrow> (error + string) \<times> World" where
  "GetAffiliateName env affiliateID w0 =
     (let w = log_call (CallGetAffiliateName affiliateID) w0
      in case ae_GetByID env of
           Inl err \<Rightarrow> (Inl (Wrapped (''get affiliate '' @ affiliateID) err), w)
         | Inr aff \<Rightarrow> (Inr (aff_Name aff), w))"

definition GenerateCouponCode :: "activity_env \<Rightarrow> string \<Rightarrow> string \<Rightarrow> string \<Rightarrow> World \<Rightarrow> (error + string) \<times> World" where
  "GenerateCouponCode env userID affiliateID delayEventID w0 =
     (let w = log_call (CallGenerateCouponCode userID affiliateID delayEventID) w0
      in case IssueCompensation (ae_issue env) userID delayEventID w of
           (Inl err, w1) \<Rightarrow> (Inl (Wrapped ''issue compensation'' err), w1)
         | (Inr cp, w1) \<Rightarrow> (Inr (comp_Code cp), w1))"

definition SendPushNotification :: "activity_env \<Rightarrow> string \<Rightarrow> string \<Rightarrow> string \<Rightarrow> World \<Rightarrow> (error + unit) \<times> World" where
  "SendPushNotification env userID affiliateName code w0 =
     (let w = log_call (CallSendPushNotification userID affiliateName code) w0
      in case ae_notifier env of
           None \<Rightarrow> (Inr (), w)
         | Some pushErr \<Rightarrow>
             let title = ''Free coffee - sorry for the delay!'';
                 body = ''Show code '' @ code @ '' at '' @ affiliateName @ ''. Valid for 72 hours.''
             in (case SendPush pushErr userID title body w of
                   (Some err, w1) \<Rightarrow> (Inl err, w1)
                 | (None, w1) \<Rightarrow> (Inr (), w1)))"

definition DeleteCoupon :: "activity_env \<Rightarrow> string \<Rightarrow> World \<Rightarrow> (error + unit) \<times> World" where
  "DeleteCoupon env code w0 =
     (let w = log_call (CallDeleteCoupon code) w0
      in case Delete (ae_deleteErr env) code w of
           Inl err \<Rightarrow> (Inl (Wrapped (''delete coupon '' @ code) err), w)
         | Inr w1 \<Rightarrow> (Inr (), w1))"

subsection \<open>The workflow engine's retries\<close>

text \<open>
  \<open>workflow.ExecuteActivity(...).Get\<close> under the retry policy \<open>MaximumAttempts: 3\<close>: the
  activity is attempted until it succeeds, at most three times, and the last error is
  the step's error.  \<open>act k\<close> is the attempt number \<open>k\<close>, counted from 0; what the
  collaborators answer may differ between attempts.  \<open>attempts n act k\<close> runs attempt \<open>k\<close>
  and, while it fails, up to \<open>n\<close> more.  Attempts that end by the 30-second timeout are
  not modelled.  The format verbs of the error messages are not expanded.
\<close>

fun attempts :: "nat \<Rightarrow> (nat \<Rightarrow> World \<Rightarrow> (error + 'a) \<times> World) \<Rightarrow> nat \<Rightarrow> World \<Rightarrow> (error + 'a) \<times> World" where
  "attempts 0 act k w = act k w"
| "attempts (Suc n) act k w =
     (case act k w of
        (Inl err, w1) \<Rightarrow> attempts n act (Suc k) w1
      | (Inr v, w1) \<Rightarrow> (Inr v, w1))"

definition ExecuteActivity :: "(nat \<Rightarrow> World \<Rightarrow> (error + 'a) \<times> World) \<Rightarrow> World \<Rightarrow> (error + 'a) \<times> World" where
  "ExecuteActivity act w = attempts 2 act 0 w"

subsection \<open>CompensationWorkflow\<close>

record CompensationInput =
  DelayEventID :: string
  UserID :: string
  StopID :: string
  DelayMinutes :: int

text \<open>
  \<open>envs\<close> gives, for each activity by name and each attempt, what the collaborators
  answer.  The result is the error the workflow returns, \<open>None\<close> for \<open>nil\<close>.
\<close>

record workflow_env =
  we_find :: "nat \<Rightarrow> activity_env"
  we_name :: "nat \<Rightarrow> activity_env"
  we_coupon :: "nat \<Rightarrow> activity_env"
  we_push :: "nat \<Rightarrow> activity_env"
  we_delete :: "nat \<Rightarrow> activity_env"

definition CompensationWorkflow :: "workflow_env \<Rightarrow> CompensationInput \<Rightarrow> World \<Rightarrow> error option \<times> World" where
  "CompensationWorkflow envs input w =
     (case ExecuteActivity (\<lambda>k. FindNearestAffiliate (we_find envs k)) w of
        (Inl err, w1) \<Rightarrow> (Some err, w1)
      | (Inr affiliateID, w1) \<Rightarrow>
          (case ExecuteActivity (\<lambda>k. GetAffiliateName (we_name envs k) affiliateID) w1 of
             (nameResult, w2) \<Rightarrow>
               let affiliateName = (case nameResult of Inl err \<Rightarrow> [] | Inr name \<Rightarrow> name)
               in (case ExecuteActivity
                          (\<lambda>k. GenerateCouponCode (we_coupon envs k) (UserID input) affiliateID
                                  (DelayEventID input)) w2 of
                     (Inl err, w3) \<Rightarrow> (Some err, w3)
                   | (Inr code, w3) \<Rightarrow>
                       (case ExecuteActivity
                               (\<lambda>k. SendPushNotification (we_push envs k) (UserID input)
                                       affiliateName code) w3 of
                          (Inl err, w4) \<Rightarrow>
                            (case ExecuteActivity (\<lambda>k. DeleteCoupon (we_delete envs k) code) w4 of
                               (deleteResult, w5) \<Rightarrow> (Some err, w5))
                        | (Inr u, w4) \<Rightarrow> (None, w4)))))"

subsection \<open>Auxiliary notion for the workflow's properties\<close>

text \<open>
  The effect of one run of the coupon step on the table: on an error no row is added, on
  success exactly one row is appended, for the delay event, with the returned code, which
  was not in the table before.
\<close>

definition row_added :: "string \<Rightarrow> World \<Rightarrow> (error + string) \<Rightarrow> World \<Rightarrow> bool" where
  "row_added d w r w' =
     (case r of
        Inl e \<Rightarrow> compensations w' = compensations w
      | Inr code \<Rightarrow>
          (\<exists>cp. compensations w' = compensations w @ [cp] \<and> comp_Code cp = code
                \<and> comp_DelayEventID cp = d
                \<and> code \<notin> set (map comp_Code (compensations w))))"

text \<open>The rows of the table for one delay event.\<close>

definition rows_for :: "string \<Rightarrow> World \<Rightarrow> Compensation list" where
  "rows_for d w = filter (\<lambda>c. comp_DelayEventID c = d) (compensations w)"

subsection \<open>Example runs\<close>

definition cafe :: Affiliate where
  "cafe = \<lparr>aff_ID = ''A1'', aff_Name = ''Cafe''\<rparr>"

definition ok_issue_env :: "8 word list \<Rightarrow> issue_env" where
  "ok_issue_env bytes =
     \<lparr>ie_FindNearby = Inr [cafe], ie_randRead = Inr bytes, ie_now1 = 1000, ie_now2 = 1001,
      ie_createErr = None, ie_markErr = None, ie_pushErr = None\<rparr>"

definition ok_activity_env :: "8 word list \<Rightarrow> activity_env" where
  "ok_activity_env bytes =
     \<lparr>ae_FindNearby = Inr [cafe], ae_GetByID = Inr cafe, ae_issue = ok_issue_env bytes,
      ae_notifier = Some None, ae_deleteErr = None\<rparr>"

definition ok_workflow_env :: "8 word list \<Rightarrow> workflow_env" where
  "ok_workflow_env bytes =
     \<lparr>we_find = (\<lambda>k. ok_activity_env bytes), we_name = (\<lambda>k. ok_activity_env bytes),
      we_coupon = (\<lambda>k. ok_activity_env bytes), we_push = (\<lambda>k. ok_activity_env bytes),
      we_delete = (\<lambda>k. ok_activity_env bytes)\<rparr>"

text \<open>The same, but every attempt to push fails, the attempt \<open>k\<close> with its own error.\<close>

definition push_error :: "nat \<Rightarrow> error" where
  "push_error k = Err (''push failed, attempt '' @ replicate (Suc k) (CHR ''I''))"

definition push_failing_env :: "8 word list \<Rightarrow> workflow_env" where
  "push_failing_env bytes =
     (ok_workflow_env bytes)
       \<lparr>we_push := (\<lambda>k. (ok_activity_env bytes)\<lparr>ae_notifier := Some (Some (push_error k))\<rparr>)\<rparr>"

definition empty_world :: World where
  "empty_world = \<lparr>compensations = [], compensated = [], pushes = [], trace = []\<rparr>"

definition input_D1 :: CompensationInput where
  "input_D1 = \<lparr>DelayEventID = ''D1'', UserID = ''U1'', StopID = ''S2'', DelayMinutes = 4\<rparr>"

text \<open>A call in which both follow-up steps fail.\<close>

definition failing_followups :: issue_env where
  "failing_followups = (ok_issue_env [0, 1, 2, 3, 4, 5])
      \<lparr>ie_markErr := Some (Err ''mark failed''), ie_pushErr := Some (Err ''push failed'')\<rparr>"

section \<open>Static ingestor: stop times (cmd/ingestor/main.go)\<close>

subsection \<open>Library functions\<close>









subsection \<open>The CSV reader\<close>



subsection \<open>Helpers\<close>







subsection \<open>processStopTimes\<close>








subsection \<open>An example file\<close>


subsection \<open>Auxiliary notion for the ingestor's properties\<close>



section \<open>Properties of the journey planner\<close>

subsection \<open>Time arithmetic\<close>

lemma todSeconds_of_eq: "todSeconds_of t = secOfDay t"
proof -
  let ?s = "secOfDay t"
  have m: "?s mod 60 = (?s mod 3600) mod 60"
    by (simp add: mod_mod_cancel)
  have a: "?s div 3600 * 3600 + ?s mod 3600 = ?s"
    by simp
  have b: "(?s mod 3600) div 60 * 60 + (?s mod 3600) mod 60 = ?s mod 3600"
    by simp
  show ?thesis
    unfolding todSeconds_of_def Hour_def Minute_def Second_def
    using a b m by linarith
qed

lemma Add_midnight:
  "Add (Date_midnight t) d = \<lparr>civilDay = civilDay t + d div 86400, secOfDay = d mod 86400\<rparr>"
  by (simp add: Add_def Date_midnight_def)

lemma Sub_Add_Add: "Sub (Add t a) (Add t b) = a - b"
proof -
  have a: "(secOfDay t + a) div 86400 * 86400 + (secOfDay t + a) mod 86400 = secOfDay t + a"
    by simp
  have b: "(secOfDay t + b) div 86400 * 86400 + (secOfDay t + b) mod 86400 = secOfDay t + b"
    by simp
  show ?thesis
    unfolding Sub_def Add_def using a b by (simp add: algebra_simps)
qed

subsection \<open>The result limit\<close>


subsection \<open>The two loops and the queries\<close>

lemma direct_loop_Inr:
  "direct_loop today rows acc = Inr js \<longleftrightarrow>
     (\<exists>js'. js = acc @ js' \<and> list_all2 (\<lambda>row j. direct_journey today row = Inr j) rows js')"
proof (induction rows arbitrary: acc)
  case Nil
  then show ?case by auto
next
  case (Cons row rows)
  show ?case
  proof (cases "direct_journey today row")
    case (Inl e)
    then show ?thesis by (auto simp: list_all2_Cons1)
  next
    case (Inr j)
    then show ?thesis using Cons.IH[of "acc @ [j]"]
      by (auto simp: list_all2_Cons1)
  qed
qed

lemma transfer_loop_eq:
  "transfer_loop today rows acc = acc @ List.map_filter (scanned today) rows"
  by (induction rows arbitrary: acc) (auto simp: List.map_filter_simps scanned_def split: sum.splits)



lemma LIMIT_ORDER_BY_subset: "set (LIMIT n (ORDER_BY k xs)) \<subseteq> set xs"
  unfolding LIMIT_def ORDER_BY_def using set_take_subset[of "nat n" "sort_key k xs"] by simp




lemma scan_route_id: "scan_route r = Inr route \<Longrightarrow> Route_ID route = r_id r"
  by (auto simp: scan_route_def split: sum.splits)

lemma direct_journey_fields:
  assumes "direct_journey (Date_midnight t) row = Inr j"
  shows "Transfers j = 0
    \<and> Duration j = st_arrival_time (d_to row) - st_departure_time (d_from row)
    \<and> DepartureTime j = \<lparr>civilDay = civilDay t + st_departure_time (d_from row) div 86400,
                          secOfDay = st_departure_time (d_from row) mod 86400\<rparr>
    \<and> ArrivalTime j = \<lparr>civilDay = civilDay t + st_arrival_time (d_to row) div 86400,
                        secOfDay = st_arrival_time (d_to row) mod 86400\<rparr>
    \<and> (\<exists>leg. Legs j = [leg]
          \<and> Route_ID (Leg_Route leg) = r_id (d_route row)
          \<and> Trip_ID (Dep_Trip (Leg_Departure leg)) = t_id (d_trip row)
          \<and> Stop_ID (FromStop leg) = s_id (d_fs row)
          \<and> Stop_ID (ToStop leg) = s_id (d_ts row)
          \<and> ScheduledTime (Leg_Departure leg) = DepartureTime j
          \<and> Leg_ArrivalTime leg = ArrivalTime j)"
  using assms
  by (auto simp: direct_journey_def Let_def Add_midnight scan_stop_def
           split: sum.splits dest: scan_route_id)

lemma FindJourneys_Inr:
  assumes "FindJourneys db faults f t dep mt l0 = Inr js"
  shows "\<exists>direct.
      list_all2 (\<lambda>row j. direct_journey (Date_midnight dep) row = Inr j)
        (direct_query db f t (secOfDay dep) (FindJourneys_limit l0)) direct
      \<and> js = direct @ xfer_part db faults f t dep mt (FindJourneys_limit l0) (length direct)"
  using assms
  unfolding FindJourneys_def phase1_def phase2_def Let_def todSeconds_of_eq xfer_part_def
  by (auto simp: direct_loop_Inr transfer_loop_eq List.map_filter_simps
           split: sum.splits option.splits if_splits)

lemma transfer_join_props:
  assumes "row \<in> set (transfer_join db f t tod)"
  shows "leg_arr (x_l1 row) + 120 \<le> leg_dep (x_l2 row)
       \<and> leg_dep (x_l2 row) \<le> leg_arr (x_l1 row) + 1800
       \<and> r_id (x_r1 row) \<noteq> r_id (x_r2 row)"
  using assms unfolding transfer_join_def by auto

lemma scanned_fields:
  assumes "scanned (Date_midnight t) row = Some j"
  shows "Transfers j = 1 \<and> Duration j = elapsed row
       \<and> Duration j = Sub (ArrivalTime j) (DepartureTime j)
       \<and> (\<exists>l1 l2. Legs j = [l1, l2]
            \<and> Sub (ScheduledTime (Leg_Departure l2)) (Leg_ArrivalTime l1)
                = leg_dep (x_l2 row) - leg_arr (x_l1 row)
            \<and> Route_ID (Leg_Route l1) = r_id (x_r1 row)
            \<and> Route_ID (Leg_Route l2) = r_id (x_r2 row))"
  using assms
  by (auto simp: scanned_def transfer_journey_def Let_def Sub_Add_Add elapsed_def
           split: sum.splits dest: scan_route_id)

lemma set_map_filter_iff:
  "y \<in> set (List.map_filter f xs) \<longleftrightarrow> (\<exists>x \<in> set xs. f x = Some y)"
  by (induction xs) (auto split: option.splits)



lemma xfer_part_member:
  assumes "j \<in> set (xfer_part db faults f t dep mt limit n)"
  shows "\<exists>row \<in> set (transfer_join db f t (secOfDay dep)). scanned (Date_midnight dep) row = Some j"
proof -
  from assms obtain row where r: "row \<in> set (transfer_query db f t (secOfDay dep) (limit - int n))"
      and s: "scanned (Date_midnight dep) row = Some j"
    by (auto simp: xfer_part_def set_map_filter_iff split: if_splits)
  from r have "row \<in> set (transfer_join db f t (secOfDay dep))"
    unfolding transfer_query_def
    using LIMIT_ORDER_BY_subset[of "limit - int n" elapsed "transfer_join db f t (secOfDay dep)"]
    by auto
  with s show ?thesis by blast
qed

lemma list_all2_member:
  assumes "list_all2 P xs ys" and "y \<in> set ys"
  shows "\<exists>x \<in> set xs. P x y"
  using assms by (metis in_set_conv_nth list_all2_conv_all_nth)

subsection \<open>One-transfer journeys\<close>

text \<open>
  Claim C4: every one-transfer journey returned by \<open>FindJourneys\<close> (a journey with two
  legs, or with \<open>Transfers = 1\<close>) has exactly two legs, the second leg leaves between 2
  and 30 minutes after the first arrives, the legs are on different routes, and its
  \<open>Transfers\<close> field is 1.
\<close>

theorem C4_transfer_window:
  assumes "FindJourneys db faults fromStopID toStopID departAfter maxTransfers limit = Inr js"
    and "j \<in> set js"
    and "length (Legs j) = 2 \<or> Transfers j = 1"
  shows "\<exists>l1 l2. Legs j = [l1, l2]
           \<and> 2 * 60 \<le> Sub (ScheduledTime (Leg_Departure l2)) (Leg_ArrivalTime l1)
           \<and> Sub (ScheduledTime (Leg_Departure l2)) (Leg_ArrivalTime l1) \<le> 30 * 60
           \<and> Route_ID (Leg_Route l1) \<noteq> Route_ID (Leg_Route l2)
           \<and> Transfers j = 1"
proof -
  from FindJourneys_Inr[OF assms(1)] obtain direct where
    d: "list_all2 (\<lambda>row j. direct_journey (Date_midnight departAfter) row = Inr j)
          (direct_query db fromStopID toStopID (secOfDay departAfter) (FindJourneys_limit limit)) direct"
    and js: "js = direct @ xfer_part db faults fromStopID toStopID departAfter maxTransfers
                   (FindJourneys_limit limit) (length direct)"
    by blast
  have "j \<notin> set direct"
  proof
    assume "j \<in> set direct"
    with list_all2_member[OF d] obtain row where
      "direct_journey (Date_midnight departAfter) row = Inr j" by blast
    from direct_journey_fields[OF this] assms(3) show False by auto
  qed
  with js assms(2) have "j \<in> set (xfer_part db faults fromStopID toStopID departAfter maxTransfers
                   (FindJourneys_limit limit) (length direct))" by simp
  from xfer_part_member[OF this] obtain row where
    r: "row \<in> set (transfer_join db fromStopID toStopID (secOfDay departAfter))"
    and s: "scanned (Date_midnight departAfter) row = Some j" by blast
  from scanned_fields[OF s] transfer_join_props[OF r] show ?thesis by auto
qed

theorem C4_transfer_window_witness:
  "\<exists>js j. FindJourneys transfer_db no_faults ''S1'' ''S2'' \<lparr>civilDay = 100, secOfDay = 27000\<rparr> 1 5 = Inr js
     \<and> j \<in> set js \<and> length (Legs j) = 2
     \<and> (\<exists>l1 l2. Legs j = [l1, l2]
           \<and> 2 * 60 \<le> Sub (ScheduledTime (Leg_Departure l2)) (Leg_ArrivalTime l1)
           \<and> Sub (ScheduledTime (Leg_Departure l2)) (Leg_ArrivalTime l1) \<le> 30 * 60
           \<and> Route_ID (Leg_Route l1) \<noteq> Route_ID (Leg_Route l2)
           \<and> Transfers j = 1)"
proof -
  let ?r = "FindJourneys transfer_db no_faults ''S1'' ''S2'' \<lparr>civilDay = 100, secOfDay = 27000\<rparr> 1 5"
  have "\<not> isl ?r" by code_simp
  then have e: "?r = Inr (projr ?r)" by simp
  have n: "projr ?r \<noteq> []" by code_simp
  have l: "length (Legs (hd (projr ?r))) = 2" by code_simp
  from n have m: "hd (projr ?r) \<in> set (projr ?r)" by simp
  from C4_transfer_window[OF e m] l e m show ?thesis by blast
qed

subsection \<open>Direct journeys\<close>





subsection \<open>Order of the one-transfer journeys\<close>








subsection \<open>The effective limit\<close>





section \<open>Properties of delay detection\<close>

lemma stopDelay_of_spec:
  "stopDelay_of (sint (GetDelay (tu_Delay tu))) stu = spec_stop_delay tu stu"
  by (auto simp: stopDelay_of_def spec_stop_delay_def present_delay_def has_Delay_def
                 ev_GetDelay_def GetDelay_def split: option.splits)

lemma stop_time_loop_eq:
  "stop_time_loop slug trip od stus (n, pub) =
     (n + length (filter (\<lambda>stu. stopDelay_of od stu > 180) stus),
      pub @ map (delay_msg slug trip od) (filter (\<lambda>stu. stopDelay_of od stu > 180) stus))"
  by (induction stus arbitrary: n pub) (auto simp: Let_def delay_msg_def)

lemma map_filter_as_concat:
  "map f (filter P xs) = concat (map (\<lambda>x. if P x then [f x] else []) xs)"
  by (induction xs) auto

lemma entity_loop_snd:
  "snd (entity_loop slug feed st) = snd st @ spec_messages slug feed"
proof (induction feed arbitrary: st)
  case Nil
  then show ?case by (simp add: spec_messages_def)
next
  case (Cons e feed)
  show ?case
  proof (cases "fe_TripUpdate e")
    case None
    then show ?thesis using Cons.IH[of st] by (simp add: spec_messages_def)
  next
    case (Some tu)
    obtain n pub where st: "st = (n, pub)" by (cases st)
    have m: "map (delay_msg slug (tu_Trip tu) (sint (GetDelay (tu_Delay tu))))
               (filter (\<lambda>stu. 180 < stopDelay_of (sint (GetDelay (tu_Delay tu))) stu) (tu_StopTimeUpdate tu))
          = spec_messages slug [e]"
      using Some unfolding spec_messages_def delay_msg_def stopDelay_of_spec map_filter_as_concat
      by simp
    have a: "spec_messages slug (e # feed) = spec_messages slug [e] @ spec_messages slug feed"
      by (simp add: spec_messages_def)
    show ?thesis
      using Some Cons.IH m a by (simp add: st stop_time_loop_eq Let_def)
  qed
qed

lemma spec_messages_all:
  "list_all (\<lambda>p. fst p = ''transit.delays.detected'' \<and> dm_delay_sec (snd p) > 180)
     (spec_messages slug feed)"
  by (auto simp: spec_messages_def list_all_iff split: option.splits)

text \<open>
  Claim C3: for every stop-time update of every trip update, the delay the poller uses is
  the arrival delay if present, else the departure delay if present, else the trip-level
  delay; a successful poll publishes, in feed order, exactly one message
  \<open>{agency, trip_id, stop_id, delay_sec, route_id}\<close> on \<open>transit.delays.detected\<close> for each
  stop-time update whose delay exceeds 180 seconds and nothing else; and every message
  published by any poll is on that subject with \<open>delay_sec > 180\<close>.
\<close>

theorem C3_delay_detection:
  "stopDelay_of (sint (GetDelay (tu_Delay tu))) stu = spec_stop_delay tu stu
   \<and> pollTripUpdates slug (Inr feed) = (None, spec_messages slug feed)
   \<and> list_all (\<lambda>p. fst p = ''transit.delays.detected'' \<and> dm_delay_sec (snd p) > 180)
       (snd (pollTripUpdates slug fetched))"
proof (intro conjI)
  show "stopDelay_of (sint (GetDelay (tu_Delay tu))) stu = spec_stop_delay tu stu"
    by (rule stopDelay_of_spec)
  show p: "pollTripUpdates slug (Inr feed) = (None, spec_messages slug feed)" for feed
    by (simp add: pollTripUpdates_def entity_loop_snd)
  show "list_all (\<lambda>p. fst p = ''transit.delays.detected'' \<and> dm_delay_sec (snd p) > 180)
       (snd (pollTripUpdates slug fetched))"
  proof (cases fetched)
    case (Inl e)
    then show ?thesis by (simp add: pollTripUpdates_def)
  next
    case (Inr feed)
    then show ?thesis using spec_messages_all[of slug feed] by (simp add: p)
  qed
qed

theorem C3_delay_detection_witness:
  "pollTripUpdates ''toy'' (Inr example_feed) =
     (None,
      [(''transit.delays.detected'',
        \<lparr>dm_agency = ''toy'', dm_trip_id = ''T1'', dm_stop_id = ''S2'', dm_delay_sec = 240,
         dm_route_id = ''R1''\<rparr>),
       (''transit.delays.detected'',
        \<lparr>dm_agency = ''toy'', dm_trip_id = ''T1'', dm_stop_id = ''S4'', dm_delay_sec = 200,
         dm_route_id = ''R1''\<rparr>),
       (''transit.delays.detected'',
        \<lparr>dm_agency = ''toy'', dm_trip_id = ''T2'', dm_stop_id = ''S6'', dm_delay_sec = 300,
         dm_route_id = []\<rparr>)])
   \<and> list_all (\<lambda>p. fst p = ''transit.delays.detected'' \<and> dm_delay_sec (snd p) > 180)
       (snd (pollTripUpdates ''toy'' (Inr example_feed)))"
proof -
  have s: "spec_messages ''toy'' example_feed =
      [(''transit.delays.detected'',
        \<lparr>dm_agency = ''toy'', dm_trip_id = ''T1'', dm_stop_id = ''S2'', dm_delay_sec = 240,
         dm_route_id = ''R1''\<rparr>),
       (''transit.delays.detected'',
        \<lparr>dm_agency = ''toy'', dm_trip_id = ''T1'', dm_stop_id = ''S4'', dm_delay_sec = 200,
         dm_route_id = ''R1''\<rparr>),
       (''transit.delays.detected'',
        \<lparr>dm_agency = ''toy'', dm_trip_id = ''T2'', dm_stop_id = ''S6'', dm_delay_sec = 300,
         dm_route_id = []\<rparr>)]"
    by code_simp
  note c = C3_delay_detection[of _ _ "''toy''" example_feed "Inr example_feed", THEN conjunct2]
  from c[THEN conjunct1] s c[THEN conjunct2] show ?thesis by simp
qed

section \<open>Properties of the bus subjects\<close>

lemma pollTripUpdates_subjects:
  "map fst (snd (pollTripUpdates slug fetched)) =
     replicate (length (snd (pollTripUpdates slug fetched))) ''transit.delays.detected''"
proof (cases fetched)
  case (Inl e)
  then show ?thesis by (simp add: pollTripUpdates_def)
next
  case (Inr feed)
  have "map fst (spec_messages slug feed) =
          replicate (length (spec_messages slug feed)) ''transit.delays.detected''"
    by (rule replicate_eqI) (auto simp: spec_messages_def split: option.splits)
  then show ?thesis using Inr by (simp add: pollTripUpdates_def entity_loop_snd)
qed

text \<open>
  Claim C10: every message of \<open>pollTripUpdates\<close> goes out on the constant subject
  \<open>transit.delays.detected\<close>; none of the stream patterns \<open>transit.vehicle.>\<close>,
  \<open>transit.alerts.>\<close>, \<open>transit.delay.>\<close> that \<open>NewPublisher\<close> configures matches that
  subject, so no stream captures it, the delays stream included.  (The subject
  \<open>transit.delay.T1\<close> that \<open>PublishDelayEvent\<close> uses for trip \<open>T1\<close> is captured by the
  delays stream.)
\<close>

theorem C10_delay_subject_not_captured:
  "map fst (snd (pollTripUpdates slug fetched)) =
     replicate (length (snd (pollTripUpdates slug fetched))) ''transit.delays.detected''
   \<and> concat (map sc_Subjects NewPublisher_streams)
        = [''transit.vehicle.>'', ''transit.alerts.>'', ''transit.delay.>'']
   \<and> \<not> subject_matches ''transit.vehicle.>'' ''transit.delays.detected''
   \<and> \<not> subject_matches ''transit.alerts.>'' ''transit.delays.detected''
   \<and> \<not> subject_matches ''transit.delay.>'' ''transit.delays.detected''
   \<and> capturing_streams ''transit.delays.detected'' = []
   \<and> capturing_streams ''transit.delay.T1'' = [''TRANSIT_DELAYS'']"
proof (intro conjI)
  show "map fst (snd (pollTripUpdates slug fetched)) =
     replicate (length (snd (pollTripUpdates slug fetched))) ''transit.delays.detected''"
    by (rule pollTripUpdates_subjects)
  show "concat (map sc_Subjects NewPublisher_streams)
        = [''transit.vehicle.>'', ''transit.alerts.>'', ''transit.delay.>'']"
    by (simp add: NewPublisher_streams_def)
  show "\<not> subject_matches ''transit.vehicle.>'' ''transit.delays.detected''" by code_simp
  show "\<not> subject_matches ''transit.alerts.>'' ''transit.delays.detected''" by code_simp
  show "\<not> subject_matches ''transit.delay.>'' ''transit.delays.detected''" by code_simp
  show "capturing_streams ''transit.delays.detected'' = []" by code_simp
  show "capturing_streams ''transit.delay.T1'' = [''TRANSIT_DELAYS'']" by code_simp
qed

theorem C10_delay_subject_not_captured_witness:
  "map fst (snd (pollTripUpdates ''toy'' (Inr example_feed))) =
     [''transit.delays.detected'', ''transit.delays.detected'', ''transit.delays.detected'']
   \<and> capturing_streams ''transit.delays.detected'' = []"
proof -
  have l: "length (snd (pollTripUpdates ''toy'' (Inr example_feed))) = 3" by code_simp
  note c = C10_delay_subject_not_captured[of "''toy''" "Inr example_feed"]
  from c[THEN conjunct1] l c[THEN conjunct2, THEN conjunct2, THEN conjunct2, THEN conjunct2, THEN conjunct2, THEN conjunct1]
  show ?thesis by (simp add: numeral_3_eq_3)
qed

section \<open>Properties of the compensation service\<close>

lemma IssueCompensation_success:
  assumes "ie_FindNearby env = Inr (affiliate # rest)"
    and "ie_randRead env = Inr bytes"
    and "ie_createErr env = None"
    and "''BP-'' @ hex_EncodeToString bytes \<notin> set (map comp_Code (compensations w))"
  shows "\<exists>cp w'. IssueCompensation env userID delayEventID w = (Inr cp, w')
     \<and> cp = \<lparr>comp_UserID = userID, comp_DelayEventID = delayEventID,
              comp_AffiliateID = aff_ID affiliate,
              comp_Code = ''BP-'' @ hex_EncodeToString bytes,
              comp_IssuedAt = ie_now1 env, comp_ExpiresAt = ie_now2 env + 72 * 3600\<rparr>
     \<and> compensations w' = compensations w @ [cp]
     \<and> compensated w' = (if ie_markErr env = None then compensated w @ [delayEventID]
                          else compensated w)
     \<and> length (pushes w') = (if ie_pushErr env = None then length (pushes w) + 1
                              else length (pushes w))"
  using assms
  by (auto simp: IssueCompensation_def generateCode_def Create_def MarkCompensated_def
                 SendPush_def Let_def split: option.splits)

lemma IssueCompensation_failure:
  assumes "ie_FindNearby env = Inr []
           \<or> (\<exists>e. ie_FindNearby env = Inl e)
           \<or> (\<exists>e. ie_randRead env = Inl e)
           \<or> (\<exists>e. ie_createErr env = Some e)
           \<or> (\<exists>bytes. ie_randRead env = Inr bytes
                 \<and> ''BP-'' @ hex_EncodeToString bytes \<in> set (map comp_Code (compensations w)))"
  shows "\<exists>e. IssueCompensation env userID delayEventID w = (Inl e, w)"
proof (cases "ie_FindNearby env")
  case (Inl e)
  then show ?thesis by (simp add: IssueCompensation_def)
next
  case (Inr affiliates)
  show ?thesis
  proof (cases affiliates)
    case Nil
    with Inr show ?thesis by (simp add: IssueCompensation_def)
  next
    case (Cons affiliate rest)
    show ?thesis
    proof (cases "ie_randRead env")
      case (Inl e)
      with Inr Cons show ?thesis by (simp add: IssueCompensation_def generateCode_def)
    next
      case bytes: (Inr bytes)
      show ?thesis
      proof (cases "ie_createErr env")
        case (Some e)
        with Inr Cons bytes show ?thesis
          by (simp add: IssueCompensation_def generateCode_def Create_def Let_def)
      next
        case None
        with assms Inr Cons bytes
        have "''BP-'' @ hex_EncodeToString bytes \<in> set (map comp_Code (compensations w))"
          by auto
        with Inr Cons bytes None show ?thesis
          by (simp add: IssueCompensation_def generateCode_def Create_def Let_def)
      qed
    qed
  qed
qed

text \<open>
  Claim C8: \<open>IssueCompensation\<close> returns the created compensation, and the table holds
  it as a new row, whenever the affiliate lookup returns a non-empty list, the code is
  generated and the row is created (the store reports no error and the code is not taken)
  - whether or not marking the delay event or sending the push fails: those two only
  decide whether the event is marked and a push delivered.  Conversely, when the
  affiliate list is empty or the create fails, it returns an error and leaves the world,
  the table included, as it was.
\<close>

theorem C8_issue_compensation:
  "(ie_FindNearby env = Inr (affiliate # rest) \<and> ie_randRead env = Inr bytes
      \<and> ie_createErr env = None
      \<and> ''BP-'' @ hex_EncodeToString bytes \<notin> set (map comp_Code (compensations w))
    \<longrightarrow> (\<exists>cp w'. IssueCompensation env userID delayEventID w = (Inr cp, w')
           \<and> cp = \<lparr>comp_UserID = userID, comp_DelayEventID = delayEventID,
                    comp_AffiliateID = aff_ID affiliate,
                    comp_Code = ''BP-'' @ hex_EncodeToString bytes,
                    comp_IssuedAt = ie_now1 env, comp_ExpiresAt = ie_now2 env + 72 * 3600\<rparr>
           \<and> compensations w' = compensations w @ [cp]
           \<and> compensated w' = (if ie_markErr env = None then compensated w @ [delayEventID]
                                else compensated w)
           \<and> length (pushes w') = (if ie_pushErr env = None then length (pushes w) + 1
                                    else length (pushes w))))
   \<and> (ie_FindNearby env = Inr []
       \<or> (\<exists>e. ie_createErr env = Some e)
       \<or> (\<exists>bs. ie_randRead env = Inr bs
              \<and> ''BP-'' @ hex_EncodeToString bs \<in> set (map comp_Code (compensations w)))
    \<longrightarrow> (\<exists>e. IssueCompensation env userID delayEventID w = (Inl e, w)))"
proof (intro conjI impI)
  assume "ie_FindNearby env = Inr (affiliate # rest) \<and> ie_randRead env = Inr bytes
      \<and> ie_createErr env = None
      \<and> ''BP-'' @ hex_EncodeToString bytes \<notin> set (map comp_Code (compensations w))"
  then show "\<exists>cp w'. IssueCompensation env userID delayEventID w = (Inr cp, w')
           \<and> cp = \<lparr>comp_UserID = userID, comp_DelayEventID = delayEventID,
                    comp_AffiliateID = aff_ID affiliate,
                    comp_Code = ''BP-'' @ hex_EncodeToString bytes,
                    comp_IssuedAt = ie_now1 env, comp_ExpiresAt = ie_now2 env + 72 * 3600\<rparr>
           \<and> compensations w' = compensations w @ [cp]
           \<and> compensated w' = (if ie_markErr env = None then compensated w @ [delayEventID]
                                else compensated w)
           \<and> length (pushes w') = (if ie_pushErr env = None then length (pushes w) + 1
                                    else length (pushes w))"
    using IssueCompensation_success[of env affiliate rest bytes w userID delayEventID] by blast
next
  assume a: "ie_FindNearby env = Inr []
       \<or> (\<exists>e. ie_createErr env = Some e)
       \<or> (\<exists>bs. ie_randRead env = Inr bs
              \<and> ''BP-'' @ hex_EncodeToString bs \<in> set (map comp_Code (compensations w)))"
  show "\<exists>e. IssueCompensation env userID delayEventID w = (Inl e, w)"
    by (rule IssueCompensation_failure) (use a in blast)
qed

theorem C8_issue_compensation_witness:
  "(\<exists>cp w'. IssueCompensation failing_followups ''U1'' ''D1'' empty_world = (Inr cp, w')
       \<and> comp_Code cp = ''BP-000102030405''
       \<and> compensations w' = [cp] \<and> compensated w' = [] \<and> pushes w' = [])
   \<and> (\<exists>e. IssueCompensation ((ok_issue_env [0, 1, 2, 3, 4, 5])\<lparr>ie_FindNearby := Inr []\<rparr>)
              ''U1'' ''D1'' empty_world = (Inl e, empty_world))"
proof -
  have h: "ie_FindNearby failing_followups = Inr (cafe # []) \<and> ie_randRead failing_followups = Inr [0, 1, 2, 3, 4, 5]
      \<and> ie_createErr failing_followups = None
      \<and> ''BP-'' @ hex_EncodeToString [0, 1, 2, 3, 4, 5] \<notin> set (map comp_Code (compensations empty_world))"
    by (simp add: failing_followups_def ok_issue_env_def empty_world_def)
  have x: "''BP-'' @ hex_EncodeToString [0, 1, 2, 3, 4, 5] = ''BP-000102030405''" by code_simp
  have m: "ie_markErr failing_followups \<noteq> None" "ie_pushErr failing_followups \<noteq> None"
    by (simp_all add: failing_followups_def)
  have z: "compensations empty_world = []" "compensated empty_world = []" "pushes empty_world = []"
    by (simp_all add: empty_world_def)
  from C8_issue_compensation[of failing_followups cafe "[]" "[0, 1, 2, 3, 4, 5]" empty_world "''U1''" "''D1''",
         THEN conjunct1, rule_format, OF h]
  obtain cp w' where o: "IssueCompensation failing_followups ''U1'' ''D1'' empty_world = (Inr cp, w')"
      "comp_Code cp = ''BP-'' @ hex_EncodeToString [0, 1, 2, 3, 4, 5]"
      "compensations w' = compensations empty_world @ [cp]"
      "compensated w' = compensated empty_world"
      "length (pushes w') = length (pushes empty_world)"
    using m by auto
  then have first: "\<exists>cp w'. IssueCompensation failing_followups ''U1'' ''D1'' empty_world = (Inr cp, w')
       \<and> comp_Code cp = ''BP-000102030405''
       \<and> compensations w' = [cp] \<and> compensated w' = [] \<and> pushes w' = []"
    unfolding x z by auto
  let ?env = "(ok_issue_env [0, 1, 2, 3, 4, 5])\<lparr>ie_FindNearby := Inr []\<rparr>"
  have "ie_FindNearby ?env = Inr []" by simp
  with C8_issue_compensation[of ?env _ _ _ empty_world "''U1''" "''D1''", THEN conjunct2]
  have second: "\<exists>e. IssueCompensation ?env ''U1'' ''D1'' empty_world = (Inl e, empty_world)"
    by blast
  from first second show ?thesis by (rule conjI)
qed

section \<open>Properties of the compensation workflow\<close>

lemma IssueCompensation_rows:
  assumes "IssueCompensation env userID d w = (r, w')"
  shows "case r of
           Inl e \<Rightarrow> w' = w
         | Inr cp \<Rightarrow> compensations w' = compensations w @ [cp] \<and> trace w' = trace w
                     \<and> comp_DelayEventID cp = d
                     \<and> comp_Code cp \<notin> set (map comp_Code (compensations w))"
  using assms
  by (auto simp: IssueCompensation_def generateCode_def Create_def MarkCompensated_def
                 SendPush_def Let_def
           split: sum.splits list.splits option.splits if_splits)

lemma GenerateCouponCode_rows:
  assumes "GenerateCouponCode env userID affiliateID d w = (r, w')"
  shows "row_added d w r w'"
proof -
  let ?w = "log_call (CallGenerateCouponCode userID affiliateID d) w"
  obtain r0 w0 where i: "IssueCompensation (ae_issue env) userID d ?w = (r0, w0)"
    by (cases "IssueCompensation (ae_issue env) userID d ?w")
  have c: "compensations ?w = compensations w" by (simp add: log_call_def)
  from IssueCompensation_rows[OF i] assms i c show ?thesis
    by (cases r0) (auto simp: GenerateCouponCode_def Let_def row_added_def)
qed

lemma row_added_Inl_trans:
  "compensations w1 = compensations w \<Longrightarrow> row_added d w1 r w' \<Longrightarrow> row_added d w r w'"
  by (auto simp: row_added_def split: sum.splits)

lemma attempts_rows:
  assumes "attempts n (\<lambda>k. GenerateCouponCode (envs k) userID affiliateID d) k0 w = (r, w')"
  shows "row_added d w r w'"
  using assms
proof (induction n arbitrary: k0 w)
  case 0
  then show ?case by (simp add: GenerateCouponCode_rows)
next
  case (Suc n)
  obtain r1 w1 where g: "GenerateCouponCode (envs k0) userID affiliateID d w = (r1, w1)"
    by (cases "GenerateCouponCode (envs k0) userID affiliateID d w")
  note a = GenerateCouponCode_rows[OF g]
  show ?case
  proof (cases r1)
    case (Inl e)
    with Suc.prems g have "attempts n (\<lambda>k. GenerateCouponCode (envs k) userID affiliateID d) (Suc k0) w1 = (r, w')"
      by simp
    note ih = Suc.IH[OF this]
    from a Inl have c: "compensations w1 = compensations w" by (simp add: row_added_def)
    show ?thesis by (rule row_added_Inl_trans[OF c ih])
  next
    case (Inr code)
    with Suc.prems g have "r = r1" "w' = w1" by simp_all
    with a show ?thesis by simp
  qed
qed

text \<open>
  Claim C1, as stated, asks that replays never leave more than one compensation row for a
  delay event, the coupon step returning the code of an existing row.  Running the
  workflow for delay event \<open>D1\<close> and then running it again leaves two rows for \<open>D1\<close>, with
  two different codes.
\<close>

theorem C1_second_coupon_counterexample:
  "fst (CompensationWorkflow (ok_workflow_env [0, 1, 2, 3, 4, 5]) input_D1 empty_world) = None
   \<and> map comp_Code (rows_for ''D1''
        (snd (CompensationWorkflow (ok_workflow_env [0, 1, 2, 3, 4, 5]) input_D1 empty_world)))
       = [''BP-000102030405'']
   \<and> fst (CompensationWorkflow (ok_workflow_env [6, 7, 8, 9, 10, 171]) input_D1
        (snd (CompensationWorkflow (ok_workflow_env [0, 1, 2, 3, 4, 5]) input_D1 empty_world)))
       = None
   \<and> map comp_Code (rows_for ''D1''
        (snd (CompensationWorkflow (ok_workflow_env [6, 7, 8, 9, 10, 171]) input_D1
          (snd (CompensationWorkflow (ok_workflow_env [0, 1, 2, 3, 4, 5]) input_D1 empty_world)))))
       = [''BP-000102030405'', ''BP-060708090aab'']"
  by code_simp

text \<open>
  Claim C1, amended: the coupon step (\<open>GenerateCouponCode\<close> under the engine's retries)
  does not look for an existing row.  Each run of the step that succeeds appends exactly
  one compensation row for the delay event, with a code not yet in the table, and returns
  that code, whatever rows the delay event already has; a run that fails appends none.  So
  the number of rows of a delay event grows by one with every successful run of the step.
\<close>

theorem C1_coupon_step_appends_row:
  assumes "ExecuteActivity (\<lambda>k. GenerateCouponCode (envs k) userID affiliateID d) w = (r, w')"
  shows "(case r of
            Inl e \<Rightarrow> compensations w' = compensations w
          | Inr code \<Rightarrow>
              (\<exists>cp. compensations w' = compensations w @ [cp] \<and> comp_Code cp = code
                    \<and> comp_DelayEventID cp = d
                    \<and> code \<notin> set (map comp_Code (compensations w))))
       \<and> length (rows_for d w')
           = length (rows_for d w) + (case r of Inl e \<Rightarrow> 0 | Inr code \<Rightarrow> 1)"
proof -
  from assms have "row_added d w r w'"
    unfolding ExecuteActivity_def by (rule attempts_rows)
  then show ?thesis by (cases r) (auto simp: row_added_def rows_for_def)
qed

theorem C1_coupon_step_appends_row_witness:
  "\<exists>w'. ExecuteActivity (\<lambda>k. GenerateCouponCode (ok_activity_env [0, 1, 2, 3, 4, 5]) ''U1'' ''A1'' ''D1'')
          empty_world = (Inr ''BP-000102030405'', w')
     \<and> length (rows_for ''D1'' w') = 1"
proof -
  let ?x = "ExecuteActivity (\<lambda>k. GenerateCouponCode (ok_activity_env [0, 1, 2, 3, 4, 5]) ''U1'' ''A1'' ''D1'') empty_world"
  have f: "fst ?x = Inr ''BP-000102030405''" by code_simp
  then have e: "?x = (Inr ''BP-000102030405'', snd ?x)" by (metis prod.collapse)
  have z: "rows_for ''D1'' empty_world = []" by (simp add: empty_world_def rows_for_def)
  from C1_coupon_step_appends_row[OF e, THEN conjunct2] z
  have "length (rows_for ''D1'' (snd ?x)) = 1"
    by simp
  with e show ?thesis by blast
qed

lemma DeleteCoupon_trace:
  "trace (snd (DeleteCoupon env code w)) = trace w @ [CallDeleteCoupon code]"
  by (auto simp: DeleteCoupon_def Delete_def log_call_def Let_def split: option.splits)

lemma attempts_DeleteCoupon_trace:
  "\<exists>m. 1 \<le> m \<and> m \<le> Suc n
     \<and> trace (snd (attempts n (\<lambda>k. DeleteCoupon (envs k) code) k0 w))
         = trace w @ replicate m (CallDeleteCoupon code)"
proof (induction n arbitrary: k0 w)
  case 0
  show ?case
    by (rule exI[of _ 1]) (simp add: DeleteCoupon_trace)
next
  case (Suc n)
  obtain r1 w1 where d: "DeleteCoupon (envs k0) code w = (r1, w1)"
    by (cases "DeleteCoupon (envs k0) code w")
  from DeleteCoupon_trace[of "envs k0" code w] d
  have t: "trace w1 = trace w @ [CallDeleteCoupon code]" by simp
  show ?case
  proof (cases r1)
    case (Inl e)
    from Suc.IH[of "Suc k0" w1] obtain m where
      m: "1 \<le> m" "m \<le> Suc n"
         "trace (snd (attempts n (\<lambda>k. DeleteCoupon (envs k) code) (Suc k0) w1))
            = trace w1 @ replicate m (CallDeleteCoupon code)"
      by blast
    show ?thesis
      apply (rule exI[of _ "Suc m"])
      using m t d Inl by (simp add: replicate_append_same)
  next
    case (Inr u)
    show ?thesis
      apply (rule exI[of _ 1])
      using t d Inr by simp
  qed
qed

lemma SendPushNotification_Inl:
  assumes "SendPushNotification env userID name code w = (Inl err, w')"
  shows "ae_notifier env = Some (Some err)"
  using assms
  by (auto simp: SendPushNotification_def SendPush_def Let_def split: option.splits)

lemma attempts_push_Inl:
  assumes "attempts n (\<lambda>k. SendPushNotification (envs k) userID name code) k0 w = (Inl err, w')"
  shows "ae_notifier (envs (k0 + n)) = Some (Some err)
       \<and> (\<forall>k. k0 \<le> k \<and> k \<le> k0 + n \<longrightarrow> (\<exists>e. ae_notifier (envs k) = Some (Some e)))"
  using assms
proof (induction n arbitrary: k0 w)
  case 0
  then show ?case using SendPushNotification_Inl[of "envs k0" userID name code w err w']
    by (auto simp: le_antisym)
next
  case (Suc n)
  obtain r1 w1 where s: "SendPushNotification (envs k0) userID name code w = (r1, w1)"
    by (cases "SendPushNotification (envs k0) userID name code w")
  show ?case
  proof (cases r1)
    case (Inl e)
    with Suc.prems s
    have "attempts n (\<lambda>k. SendPushNotification (envs k) userID name code) (Suc k0) w1 = (Inl err, w')"
      by simp
    note ih = Suc.IH[OF this]
    from s Inl have f: "ae_notifier (envs k0) = Some (Some e)"
      by (simp add: SendPushNotification_Inl)
    have "\<exists>e. ae_notifier (envs k) = Some (Some e)" if "k0 \<le> k \<and> k \<le> k0 + Suc n" for k
    proof (cases "k = k0")
      case True
      with f show ?thesis by blast
    next
      case False
      with that have "Suc k0 \<le> k \<and> k \<le> Suc k0 + n" by simp
      with ih show ?thesis by blast
    qed
    with ih show ?thesis by simp
  next
    case (Inr u)
    with Suc.prems s show ?thesis by simp
  qed
qed

text \<open>
  Claim C2: when the steps up to the coupon succeed and the \<open>SendPushNotification\<close> step
  fails (all three attempts), with error \<open>err\<close>, the workflow then runs \<open>DeleteCoupon\<close>
  for the coupon's code (one to three attempts, nothing else after the push) and returns
  \<open>err\<close>, whatever \<open>DeleteCoupon\<close> returns; \<open>err\<close> is the error of the notifier at the last
  attempt to push.
\<close>

theorem C2_push_failure_rolls_back:
  assumes "ExecuteActivity (\<lambda>k. FindNearestAffiliate (we_find envs k)) w = (Inr affiliateID, w1)"
    and "ExecuteActivity (\<lambda>k. GetAffiliateName (we_name envs k) affiliateID) w1 = (nameResult, w2)"
    and "ExecuteActivity (\<lambda>k. GenerateCouponCode (we_coupon envs k) (UserID input) affiliateID
                               (DelayEventID input)) w2 = (Inr code, w3)"
    and "ExecuteActivity (\<lambda>k. SendPushNotification (we_push envs k) (UserID input)
                               (case nameResult of Inl e \<Rightarrow> [] | Inr name \<Rightarrow> name) code) w3
           = (Inl err, w4)"
  shows "fst (CompensationWorkflow envs input w) = Some err
       \<and> snd (CompensationWorkflow envs input w)
           = snd (ExecuteActivity (\<lambda>k. DeleteCoupon (we_delete envs k) code) w4)
       \<and> (\<exists>m. 1 \<le> m \<and> m \<le> 3
             \<and> trace (snd (CompensationWorkflow envs input w))
                 = trace w4 @ replicate m (CallDeleteCoupon code))
       \<and> ae_notifier (we_push envs 2) = Some (Some err)"
proof -
  let ?d = "ExecuteActivity (\<lambda>k. DeleteCoupon (we_delete envs k) code) w4"
  have r: "CompensationWorkflow envs input w = (Some err, snd ?d)"
    using assms by (simp add: CompensationWorkflow_def Let_def split: prod.splits)
  from attempts_DeleteCoupon_trace[of 2 "we_delete envs" code 0 w4]
  have t: "\<exists>m. 1 \<le> m \<and> m \<le> 3 \<and> trace (snd ?d) = trace w4 @ replicate m (CallDeleteCoupon code)"
    by (simp add: ExecuteActivity_def numeral_3_eq_3)
  from attempts_push_Inl[OF assms(4)[unfolded ExecuteActivity_def] ]
  have p: "ae_notifier (we_push envs 2) = Some (Some err)" by (simp add: numeral_2_eq_2)
  from r t p show ?thesis by simp
qed

theorem C2_push_failure_rolls_back_witness:
  "fst (CompensationWorkflow (push_failing_env [0, 1, 2, 3, 4, 5]) input_D1 empty_world)
     = Some (push_error 2)
   \<and> trace (snd (CompensationWorkflow (push_failing_env [0, 1, 2, 3, 4, 5]) input_D1 empty_world))
     = [CallFindNearestAffiliate, CallGetAffiliateName ''A1'',
        CallGenerateCouponCode ''U1'' ''A1'' ''D1'',
        CallSendPushNotification ''U1'' ''Cafe'' ''BP-000102030405'',
        CallSendPushNotification ''U1'' ''Cafe'' ''BP-000102030405'',
        CallSendPushNotification ''U1'' ''Cafe'' ''BP-000102030405'',
        CallDeleteCoupon ''BP-000102030405'']
   \<and> compensations (snd (CompensationWorkflow (push_failing_env [0, 1, 2, 3, 4, 5]) input_D1 empty_world)) = []"
proof -
  let ?envs = "push_failing_env [0, 1, 2, 3, 4, 5]"
  let ?a1 = "ExecuteActivity (\<lambda>k. FindNearestAffiliate (we_find ?envs k)) empty_world"
  let ?a2 = "ExecuteActivity (\<lambda>k. GetAffiliateName (we_name ?envs k) ''A1'') (snd ?a1)"
  let ?a3 = "ExecuteActivity (\<lambda>k. GenerateCouponCode (we_coupon ?envs k) (UserID input_D1) ''A1''
                               (DelayEventID input_D1)) (snd ?a2)"
  let ?a4 = "ExecuteActivity (\<lambda>k. SendPushNotification (we_push ?envs k) (UserID input_D1)
                               (case fst ?a2 of Inl e \<Rightarrow> [] | Inr name \<Rightarrow> name) ''BP-000102030405'') (snd ?a3)"
  have f1: "fst ?a1 = Inr ''A1''" by code_simp
  have f3: "fst ?a3 = Inr ''BP-000102030405''" by code_simp
  have f4: "fst ?a4 = Inl (push_error 2)" by code_simp
  have h1: "?a1 = (Inr ''A1'', snd ?a1)" using f1 by (metis prod.collapse)
  have h2: "?a2 = (fst ?a2, snd ?a2)" by simp
  have h3: "?a3 = (Inr ''BP-000102030405'', snd ?a3)" using f3 by (metis prod.collapse)
  have h4: "?a4 = (Inl (push_error 2), snd ?a4)" using f4 by (metis prod.collapse)
  note c = C2_push_failure_rolls_back[OF h1 h2 h3 h4]
  have t: "trace (snd (CompensationWorkflow ?envs input_D1 empty_world))
     = [CallFindNearestAffiliate, CallGetAffiliateName ''A1'',
        CallGenerateCouponCode ''U1'' ''A1'' ''D1'',
        CallSendPushNotification ''U1'' ''Cafe'' ''BP-000102030405'',
        CallSendPushNotification ''U1'' ''Cafe'' ''BP-000102030405'',
        CallSendPushNotification ''U1'' ''Cafe'' ''BP-000102030405'',
        CallDeleteCoupon ''BP-000102030405'']" by code_simp
  have z: "compensations (snd (CompensationWorkflow ?envs input_D1 empty_world)) = []"
    by code_simp
  from c[THEN conjunct1] t z show ?thesis by simp
qed

section \<open>Properties of the static ingestor\<close>











end
